theory Spec2Isabelle
  imports Complex_Main
begin

section \<open>Python values\<close>

text \<open>
  The two operations of \<^verbatim>\<open>fast_mcp_customer_eval.py\<close> receive a dictionary whose
  values are whatever the caller's JSON holds, and push them through the built-in
  conversions \<^verbatim>\<open>float\<close> and \<^verbatim>\<open>int\<close>. The model therefore starts with the values of
  the interpreter.

  A Python float is a finite number, one of the two infinities, or NaN. Finite floats
  are modelled by the real number they denote, and their arithmetic and the
  conversion of an integer or a decimal literal to a float are exact: the rounding of
  binary64 results to 53 bits and the sign of zero are not modelled. What is modelled
  is everything the program branches on: the order with NaN unordered, the
  infinities, the conversions that raise, and the range of \<^verbatim>\<open>float\<close>.
\<close>

datatype pyfloat = Fin real | PInf | NInf | NaN

datatype pyexn = TypeError | ValueError | OverflowError | ZeroDivisionError

datatype pyval =
    PNone
  | PBool bool
  | PInt int
  | PFloat pyfloat
  | PStr string
  | PList "pyval list"
  | PDict "(string \<times> pyval) list"

text \<open>Python's \<^verbatim>\<open>a < b\<close> on floats: every comparison with NaN is false.\<close>

fun pf_lt :: "pyfloat \<Rightarrow> pyfloat \<Rightarrow> bool" where
  "pf_lt (Fin a) (Fin b) = (a < b)"
| "pf_lt NaN _ = False"
| "pf_lt _ NaN = False"
| "pf_lt _ NInf = False"
| "pf_lt NInf _ = True"
| "pf_lt PInf _ = False"
| "pf_lt _ PInf = True"

text \<open>
  \<^verbatim>\<open>max(a, b)\<close> keeps its first argument unless the second is greater, and
  \<^verbatim>\<open>min(a, b)\<close> keeps its first argument unless the second is smaller; with NaN
  this makes both depend on the order of the arguments.
\<close>

definition py_max :: "pyfloat \<Rightarrow> pyfloat \<Rightarrow> pyfloat" where
  "py_max a b = (if pf_lt a b then b else a)"

definition py_min :: "pyfloat \<Rightarrow> pyfloat \<Rightarrow> pyfloat" where
  "py_min a b = (if pf_lt b a then b else a)"

fun pf_add :: "pyfloat \<Rightarrow> pyfloat \<Rightarrow> pyfloat" where
  "pf_add (Fin a) (Fin b) = Fin (a + b)"
| "pf_add NaN _ = NaN"
| "pf_add _ NaN = NaN"
| "pf_add PInf NInf = NaN"
| "pf_add NInf PInf = NaN"
| "pf_add PInf _ = PInf"
| "pf_add NInf _ = NInf"
| "pf_add _ PInf = PInf"
| "pf_add _ NInf = NInf"

fun pf_neg :: "pyfloat \<Rightarrow> pyfloat" where
  "pf_neg (Fin a) = Fin (- a)"
| "pf_neg PInf = NInf"
| "pf_neg NInf = PInf"
| "pf_neg NaN = NaN"

fun pf_mul :: "pyfloat \<Rightarrow> pyfloat \<Rightarrow> pyfloat" where
  "pf_mul (Fin a) (Fin b) = Fin (a * b)"
| "pf_mul NaN _ = NaN"
| "pf_mul _ NaN = NaN"
| "pf_mul (Fin a) b = (if a = 0 then NaN else if 0 < a then b else pf_neg b)"
| "pf_mul a (Fin b) = (if b = 0 then NaN else if 0 < b then a else pf_neg a)"
| "pf_mul PInf b = b"
| "pf_mul NInf b = pf_neg b"

text \<open>Float division raises \<^verbatim>\<open>ZeroDivisionError\<close> on a zero divisor.\<close>

fun pf_div :: "pyfloat \<Rightarrow> pyfloat \<Rightarrow> pyexn + pyfloat" where
  "pf_div a (Fin b) =
     (if b = 0 then Inl ZeroDivisionError
      else case a of
          Fin x \<Rightarrow> Inr (Fin (x / b))
        | NaN \<Rightarrow> Inr NaN
        | _ \<Rightarrow> Inr (if 0 < b then a else pf_neg a))"
| "pf_div (Fin a) NaN = Inr NaN"
| "pf_div (Fin a) _ = Inr (Fin 0)"
| "pf_div _ _ = Inr NaN"

text \<open>
  \<^verbatim>\<open>round(x)\<close> with one argument returns an integer, rounding halves to the even
  neighbour; it raises on NaN and on the infinities. \<^verbatim>\<open>round(x, n)\<close> returns a
  float and passes NaN and the infinities through.
\<close>

definition round_half_even :: "real \<Rightarrow> int" where
  "round_half_even x =
     (let f = \<lfloor>x\<rfloor>; d = x - of_int f
      in if d < 1 / 2 then f else if 1 / 2 < d then f + 1
         else if even f then f else f + 1)"

fun py_round :: "pyfloat \<Rightarrow> pyexn + int" where
  "py_round (Fin x) = Inr (round_half_even x)"
| "py_round NaN = Inl ValueError"
| "py_round _ = Inl OverflowError"

fun py_round_nd :: "pyfloat \<Rightarrow> nat \<Rightarrow> pyfloat" where
  "py_round_nd (Fin x) n = Fin (of_int (round_half_even (x * 10 ^ n)) / 10 ^ n)"
| "py_round_nd x n = x"

section \<open>The built-in conversions\<close>

text \<open>
  \<^verbatim>\<open>float(n)\<close> of an integer raises \<^verbatim>\<open>OverflowError\<close> when \<open>n\<close> does not round
  to a finite binary64 value: the largest finite float is \<open>2^1024 - 2^971\<close>, and every
  integer from \<open>2^1024 - 2^970\<close> on rounds past it.
\<close>

definition float_overflow_bound :: int where
  "float_overflow_bound = 2 ^ 1024 - 2 ^ 970"

definition py_float_of_int :: "int \<Rightarrow> pyexn + pyfloat" where
  "py_float_of_int n =
     (if float_overflow_bound \<le> \<bar>n\<bar> then Inl OverflowError else Inr (Fin (of_int n)))"

text \<open>\<^verbatim>\<open>int(x)\<close> of a float truncates toward zero; NaN and the infinities raise.\<close>

fun py_int_of_float :: "pyfloat \<Rightarrow> pyexn + int" where
  "py_int_of_float (Fin x) = Inr (if 0 \<le> x then \<lfloor>x\<rfloor> else \<lceil>x\<rceil>)"
| "py_int_of_float NaN = Inl ValueError"
| "py_int_of_float _ = Inl OverflowError"

subsection \<open>Numbers written as text\<close>

text \<open>
  Both conversions accept a string: surrounding whitespace is dropped, a sign may
  lead, and a run of digits may hold single underscores between digits. Strings are
  modelled as ASCII text; the digits and spaces of other scripts, which the interpreter
  also accepts, and its limit on the length of an integer literal are left out.
\<close>

definition is_space :: "char \<Rightarrow> bool" where
  "is_space c \<longleftrightarrow> c \<in> set [CHR 0x09, CHR 0x0A, CHR 0x0B, CHR 0x0C, CHR 0x0D, CHR 0x20]"

definition strip :: "string \<Rightarrow> string" where
  "strip s = rev (dropWhile is_space (rev (dropWhile is_space s)))"

definition digit_of :: "char \<Rightarrow> nat option" where
  "digit_of c =
     map_of [(CHR ''0'', 0), (CHR ''1'', 1), (CHR ''2'', 2), (CHR ''3'', 3), (CHR ''4'', 4),
             (CHR ''5'', 5), (CHR ''6'', 6), (CHR ''7'', 7), (CHR ''8'', 8), (CHR ''9'', 9)] c"

fun scan_digits :: "string \<Rightarrow> nat list option" where
  "scan_digits [] = None"
| "scan_digits [c] = map_option (\<lambda>d. [d]) (digit_of c)"
| "scan_digits (c # d # cs) =
     (case digit_of c of
        None \<Rightarrow> None
      | Some v \<Rightarrow>
          map_option ((#) v) (if d = CHR ''_'' then scan_digits cs else scan_digits (d # cs)))"

definition digits_value :: "nat list \<Rightarrow> nat" where
  "digits_value ds = foldl (\<lambda>a d. 10 * a + d) 0 ds"

definition parse_signed_digits :: "string \<Rightarrow> int option" where
  "parse_signed_digits s =
     (case s of
        [] \<Rightarrow> None
      | c # cs \<Rightarrow>
          if c = CHR ''-'' then map_option (\<lambda>ds. - int (digits_value ds)) (scan_digits cs)
          else if c = CHR ''+'' then map_option (\<lambda>ds. int (digits_value ds)) (scan_digits cs)
          else map_option (\<lambda>ds. int (digits_value ds)) (scan_digits s))"

definition parse_int :: "string \<Rightarrow> int option" where
  "parse_int s = parse_signed_digits (strip s)"

definition split_at :: "(char \<Rightarrow> bool) \<Rightarrow> string \<Rightarrow> string \<times> string option" where
  "split_at P s =
     (takeWhile (\<lambda>c. \<not> P c) s,
      case dropWhile (\<lambda>c. \<not> P c) s of [] \<Rightarrow> None | _ # r \<Rightarrow> Some r)"

definition to_lower :: "char \<Rightarrow> char" where
  "to_lower c =
     (case map_of (zip ''ABCDEFGHIJKLMNOPQRSTUVWXYZ'' ''abcdefghijklmnopqrstuvwxyz'') c of
        Some l \<Rightarrow> l
      | None \<Rightarrow> c)"

definition pow10 :: "int \<Rightarrow> real" where
  "pow10 e = (if 0 \<le> e then 10 ^ nat e else 1 / 10 ^ nat (- e))"

text \<open>The digits before and after the point, and how many stand after it.\<close>

definition parse_mantissa :: "string \<Rightarrow> (nat list \<times> nat) option" where
  "parse_mantissa m =
     (case split_at (\<lambda>c. c = CHR ''.'') m of
        (ip, None) \<Rightarrow> map_option (\<lambda>ds. (ds, 0)) (scan_digits ip)
      | (ip, Some fp) \<Rightarrow>
          if ip = [] \<and> fp = [] then None
          else
            (case (if ip = [] then Some [] else scan_digits ip,
                   if fp = [] then Some [] else scan_digits fp) of
               (Some a, Some b) \<Rightarrow> Some (a @ b, length b)
             | _ \<Rightarrow> None))"

text \<open>
  A decimal literal too large for a finite float reads as infinity. Otherwise it is
  read as the exact number it denotes: one too small for a non-zero float stays that
  tiny number, where the interpreter reads a zero.
\<close>

definition parse_unsigned_float :: "string \<Rightarrow> pyfloat option" where
  "parse_unsigned_float s =
     (let l = map to_lower s
      in if l = ''inf'' \<or> l = ''infinity'' then Some PInf
         else if l = ''nan'' then Some NaN
         else
           (case split_at (\<lambda>c. c = CHR ''e'' \<or> c = CHR ''E'') s of (m, ex) \<Rightarrow>
              (case parse_mantissa m of
                 None \<Rightarrow> None
               | Some (ds, k) \<Rightarrow>
                   (case (case ex of None \<Rightarrow> Some 0 | Some es \<Rightarrow> parse_signed_digits es) of
                      None \<Rightarrow> None
                    | Some e \<Rightarrow>
                        (let v = real (digits_value ds) * pow10 (e - int k)
                         in Some (if real_of_int float_overflow_bound \<le> v then PInf
                                  else Fin v))))))"

definition parse_float :: "string \<Rightarrow> pyfloat option" where
  "parse_float s =
     (case strip s of
        [] \<Rightarrow> None
      | c # cs \<Rightarrow>
          if c = CHR ''-'' then map_option pf_neg (parse_unsigned_float cs)
          else if c = CHR ''+'' then parse_unsigned_float cs
          else parse_unsigned_float (c # cs))"

subsection \<open>\<^verbatim>\<open>float\<close> and \<^verbatim>\<open>int\<close> on any value\<close>

fun py_float :: "pyval \<Rightarrow> pyexn + pyfloat" where
  "py_float (PFloat f) = Inr f"
| "py_float (PInt n) = py_float_of_int n"
| "py_float (PBool b) = Inr (Fin (if b then 1 else 0))"
| "py_float (PStr s) = (case parse_float s of None \<Rightarrow> Inl ValueError | Some f \<Rightarrow> Inr f)"
| "py_float _ = Inl TypeError"

fun py_int :: "pyval \<Rightarrow> pyexn + int" where
  "py_int (PInt n) = Inr n"
| "py_int (PBool b) = Inr (if b then 1 else 0)"
| "py_int (PFloat f) = py_int_of_float f"
| "py_int (PStr s) = (case parse_int s of None \<Rightarrow> Inl ValueError | Some n \<Rightarrow> Inr n)"
| "py_int _ = Inl TypeError"

section \<open>The credit scoring program\<close>

subsection \<open>Configuration\<close>

datatype factor = Asset | Salary | Experience

definition ASSET_CAP :: pyfloat where "ASSET_CAP = Fin 10000000000"
definition SALARY_CAP :: pyfloat where "SALARY_CAP = Fin 200000000"
definition EXP_CAP :: pyfloat where "EXP_CAP = Fin 40"
definition BASE_SCORE :: pyfloat where "BASE_SCORE = Fin 500"
definition BONUS_POOL :: pyfloat where "BONUS_POOL = Fin 300"

fun WEIGHTS :: "factor \<Rightarrow> pyfloat" where
  "WEIGHTS Asset = Fin (5 / 10)"
| "WEIGHTS Salary = Fin (3 / 10)"
| "WEIGHTS Experience = Fin (2 / 10)"

subsection \<open>Data\<close>

record CreditInputs =
  total_asset_value :: pyfloat
  monthly_salary :: pyfloat
  work_experiences :: int
  age :: int

text \<open>The request body: a dictionary from field names to values.\<close>

type_synonym inputs = "string \<rightharpoonup> pyval"

definition dict_get :: "inputs \<Rightarrow> string \<Rightarrow> pyval \<Rightarrow> pyval" where
  "dict_get d k dflt = (case d k of None \<Rightarrow> dflt | Some v \<Rightarrow> v)"

text \<open>
  The two \<^verbatim>\<open>ValueError\<close>s of the sanitizer. The first wraps whatever exception a
  conversion raised (its message is spliced into the text \<^verbatim>\<open>Invalid input types: ...\<close>);
  the second is the fixed text \<^verbatim>\<open>Numeric inputs must be non-negative.\<close>
\<close>

datatype value_error = Invalid_input_types pyexn | Non_negative_required

text \<open>
  The three rationale texts of the classification are fixed Vietnamese sentences;
  each is represented by a tag.
\<close>

datatype rationale = Reason_high_value | Reason_standard | Reason_risk

record component =
  c_value :: pyfloat
  c_cap :: pyfloat
  c_norm :: pyfloat
  c_points :: pyfloat

record calc =
  credit_score :: int
  raw_score :: pyfloat
  classification :: string
  reason_class :: rationale
  comp_asset :: component
  comp_salary :: component
  comp_experience :: component
  base :: pyfloat
  bonus_pool :: pyfloat
  weights :: "factor \<Rightarrow> pyfloat"

subsection \<open>Input sanitizer\<close>

text \<open>
  The four conversions run in order inside one \<^verbatim>\<open>try\<close>; any exception of any of
  them is turned into a \<^verbatim>\<open>ValueError\<close>. A missing key reads as the integer 0.
\<close>

definition sanitize_and_cast :: "inputs \<Rightarrow> value_error + CreditInputs" where
  "sanitize_and_cast inp =
     (case py_float (dict_get inp ''total_asset_value'' (PInt 0)) of
        Inl e \<Rightarrow> Inl (Invalid_input_types e)
      | Inr asset \<Rightarrow>
     (case py_float (dict_get inp ''monthly_salary'' (PInt 0)) of
        Inl e \<Rightarrow> Inl (Invalid_input_types e)
      | Inr salary \<Rightarrow>
     (case py_int (dict_get inp ''work_experiences'' (PInt 0)) of
        Inl e \<Rightarrow> Inl (Invalid_input_types e)
      | Inr exper \<Rightarrow>
     (case py_int (dict_get inp ''age'' (PInt 0)) of
        Inl e \<Rightarrow> Inl (Invalid_input_types e)
      | Inr ag \<Rightarrow>
          if pf_lt asset (Fin 0) \<or> pf_lt salary (Fin 0) \<or> exper < 0 \<or> ag < 0
          then Inl Non_negative_required
          else Inr \<lparr>total_asset_value = asset, monthly_salary = salary,
                    work_experiences = exper, age = ag\<rparr>))))"

subsection \<open>Scoring engine\<close>

text \<open>
  \<^verbatim>\<open>_compute_scores\<close>, statement by statement. It runs outside every \<^verbatim>\<open>try\<close>, so
  an exception of one of its calls leaves the function: the result is \<open>Inl\<close> of it.
\<close>

definition compute_scores :: "CreditInputs \<Rightarrow> pyexn + calc" where
  "compute_scores ci =
     (let asset = py_max (Fin 0) (total_asset_value ci);
          salary = py_max (Fin 0) (monthly_salary ci)
      in case py_float_of_int (work_experiences ci) of
           Inl e \<Rightarrow> Inl e
         | Inr expf \<Rightarrow>
     (let exper = py_max (Fin 0) expf;
          ag = max 0 (age ci)
      in case pf_div asset ASSET_CAP of Inl e \<Rightarrow> Inl e | Inr aq \<Rightarrow>
        (case pf_div salary SALARY_CAP of Inl e \<Rightarrow> Inl e | Inr sq \<Rightarrow>
        (case pf_div exper EXP_CAP of Inl e \<Rightarrow> Inl e | Inr xq \<Rightarrow>
     (let asset_norm = py_min aq (Fin 1);
          salary_norm = py_min sq (Fin 1);
          exp_norm = py_min xq (Fin 1);
          asset_points = pf_mul BONUS_POOL (WEIGHTS Asset);
          salary_points = pf_mul BONUS_POOL (WEIGHTS Salary);
          exp_points = pf_mul BONUS_POOL (WEIGHTS Experience);
          asset_score = pf_mul asset_norm asset_points;
          salary_score = pf_mul salary_norm salary_points;
          exp_score = pf_mul exp_norm exp_points;
          raw = pf_add (pf_add (pf_add BASE_SCORE asset_score) salary_score) exp_score
      in case py_round (py_max BASE_SCORE (py_min raw (pf_add BASE_SCORE BONUS_POOL))) of
           Inl e \<Rightarrow> Inl e
         | Inr score \<Rightarrow>
     (let (cls, why) =
            (if 720 \<le> score \<and> 25 \<le> ag \<and> ag \<le> 65
               then (''high-value'', Reason_high_value)
             else if 640 \<le> score \<and> 21 \<le> ag \<and> ag \<le> 70
               then (''standard'', Reason_standard)
             else (''risk'', Reason_risk))
      in Inr \<lparr>credit_score = score,
               raw_score = raw,
               classification = cls,
               reason_class = why,
               comp_asset = \<lparr>c_value = asset, c_cap = ASSET_CAP,
                              c_norm = py_round_nd asset_norm 6,
                              c_points = py_round_nd asset_score 2\<rparr>,
               comp_salary = \<lparr>c_value = salary, c_cap = SALARY_CAP,
                               c_norm = py_round_nd salary_norm 6,
                               c_points = py_round_nd salary_score 2\<rparr>,
               comp_experience = \<lparr>c_value = exper, c_cap = EXP_CAP,
                                   c_norm = py_round_nd exp_norm 6,
                                   c_points = py_round_nd exp_score 2\<rparr>,
               base = BASE_SCORE,
               bonus_pool = BONUS_POOL,
               weights = WEIGHTS\<rparr>))))))"

subsection \<open>The two operations\<close>

text \<open>
  Both tools return a dictionary: the result, or the error object built from the
  sanitizer's \<^verbatim>\<open>ValueError\<close>. The outcome of a call is that dictionary (\<open>Inr\<close>), or
  the exception that left the tool (\<open>Inl\<close>). The two constant texts of the
  \<^verbatim>\<open>reasons\<close> object (the explanation sentence and the rule sentence) are left out.
\<close>

record error_response =
  error :: string
  details :: value_error

datatype 'a response = Success 'a | Failure error_response

record reasons =
  r_base :: pyfloat
  r_asset_score :: pyfloat
  r_salary_score :: pyfloat
  r_experience_score :: pyfloat
  r_asset_norm :: pyfloat
  r_salary_norm :: pyfloat
  r_experience_norm :: pyfloat
  r_asset_cap :: pyfloat
  r_salary_cap :: pyfloat
  r_experience_cap :: pyfloat
  r_weights :: "factor \<Rightarrow> pyfloat"
  r_age :: int
  r_reason :: rationale

record classify_result =
  cc_credit_score :: int
  cc_classification :: string
  cc_reasons :: reasons

record breakdown_result =
  sb_credit_score :: int
  sb_raw_score :: pyfloat
  sb_asset :: component
  sb_salary :: component
  sb_experience :: component
  sb_weights :: "factor \<Rightarrow> pyfloat"
  sb_base :: pyfloat
  sb_bonus_pool :: pyfloat

definition classify_customer :: "inputs \<Rightarrow> pyexn + classify_result response" where
  "classify_customer inp =
     (case sanitize_and_cast inp of
        Inl e \<Rightarrow> Inr (Failure \<lparr>error = ''invalid_input'', details = e\<rparr>)
      | Inr ci \<Rightarrow>
          (case compute_scores ci of
             Inl x \<Rightarrow> Inl x
           | Inr c \<Rightarrow>
               Inr (Success
                 \<lparr>cc_credit_score = credit_score c,
                  cc_classification = classification c,
                  cc_reasons =
                    \<lparr>r_base = BASE_SCORE,
                     r_asset_score = c_points (comp_asset c),
                     r_salary_score = c_points (comp_salary c),
                     r_experience_score = c_points (comp_experience c),
                     r_asset_norm = c_norm (comp_asset c),
                     r_salary_norm = c_norm (comp_salary c),
                     r_experience_norm = c_norm (comp_experience c),
                     r_asset_cap = ASSET_CAP,
                     r_salary_cap = SALARY_CAP,
                     r_experience_cap = EXP_CAP,
                     r_weights = WEIGHTS,
                     r_age = age ci,
                     r_reason = reason_class c\<rparr>\<rparr>)))"

definition score_breakdown :: "inputs \<Rightarrow> pyexn + breakdown_result response" where
  "score_breakdown inp =
     (case sanitize_and_cast inp of
        Inl e \<Rightarrow> Inr (Failure \<lparr>error = ''invalid_input'', details = e\<rparr>)
      | Inr ci \<Rightarrow>
          (case compute_scores ci of
             Inl x \<Rightarrow> Inl x
           | Inr c \<Rightarrow>
               Inr (Success
                 \<lparr>sb_credit_score = credit_score c,
                  sb_raw_score = raw_score c,
                  sb_asset = comp_asset c,
                  sb_salary = comp_salary c,
                  sb_experience = comp_experience c,
                  sb_weights = weights c,
                  sb_base = base c,
                  sb_bonus_pool = bonus_pool c\<rparr>)))"

section \<open>The specification's formulas\<close>

text \<open>
  The specification describes the engine by formulas on numbers. They are written
  down here in its words, to be compared with what \<open>compute_scores\<close> computes:
  the normalized ratio \<^verbatim>\<open>norm = min(value / cap, 1.0)\<close> of the value clamped at zero,
  the raw score \<^verbatim>\<open>base + asset_score + salary_score + experience_score\<close> with
  \<^verbatim>\<open>factor_score = norm * bonus_pool * weight\<close>, and the classification rule read
  top-down. An infinite value has ratio 1; NaN is dropped by the clamp and has ratio 0.
\<close>

definition spec_norm :: "pyfloat \<Rightarrow> real \<Rightarrow> real" where
  "spec_norm x cap = (case x of Fin a \<Rightarrow> min (max 0 a / cap) 1 | PInf \<Rightarrow> 1 | _ \<Rightarrow> 0)"

definition spec_raw_score :: "CreditInputs \<Rightarrow> real" where
  "spec_raw_score ci =
     500 + spec_norm (total_asset_value ci) 10000000000 * 150
         + spec_norm (monthly_salary ci) 200000000 * 90
         + spec_norm (Fin (of_int (work_experiences ci))) 40 * 60"

definition spec_classification :: "int \<Rightarrow> int \<Rightarrow> string" where
  "spec_classification score a =
     (if 720 \<le> score \<and> 25 \<le> a \<and> a \<le> 65 then ''high-value''
      else if 640 \<le> score \<and> 21 \<le> a \<and> a \<le> 70 then ''standard''
      else ''risk'')"

text \<open>
  The result the specification asks of the engine: score fields from the unrounded
  formulas, breakdown fields rounded to 6 and to 2 digits.
\<close>

definition spec_result :: "CreditInputs \<Rightarrow> calc" where
  "spec_result ci =
     (let na = spec_norm (total_asset_value ci) 10000000000;
          ns = spec_norm (monthly_salary ci) 200000000;
          ne = spec_norm (Fin (of_int (work_experiences ci))) 40;
          score = round_half_even (max 500 (min (spec_raw_score ci) 800));
          ag = max 0 (age ci)
      in \<lparr>credit_score = score,
          raw_score = Fin (spec_raw_score ci),
          classification = spec_classification score ag,
          reason_class =
            (if 720 \<le> score \<and> 25 \<le> ag \<and> ag \<le> 65 then Reason_high_value
             else if 640 \<le> score \<and> 21 \<le> ag \<and> ag \<le> 70 then Reason_standard
             else Reason_risk),
          comp_asset =
            \<lparr>c_value = py_max (Fin 0) (total_asset_value ci), c_cap = ASSET_CAP,
             c_norm = py_round_nd (Fin na) 6,
             c_points = py_round_nd (Fin (na * 150)) 2\<rparr>,
          comp_salary =
            \<lparr>c_value = py_max (Fin 0) (monthly_salary ci), c_cap = SALARY_CAP,
             c_norm = py_round_nd (Fin ns) 6,
             c_points = py_round_nd (Fin (ns * 90)) 2\<rparr>,
          comp_experience =
            \<lparr>c_value = Fin (max 0 (of_int (work_experiences ci))), c_cap = EXP_CAP,
             c_norm = py_round_nd (Fin ne) 6,
             c_points = py_round_nd (Fin (ne * 60)) 2\<rparr>,
          base = BASE_SCORE,
          bonus_pool = BONUS_POOL,
          weights = WEIGHTS\<rparr>)"

text \<open>
  What a caller observes of a call when only the score matters: the exception that
  left the tool, the error object, or the \<^verbatim>\<open>credit_score\<close> field of the result.
\<close>

definition outcome_score :: "('a \<Rightarrow> int) \<Rightarrow> pyexn + 'a response \<Rightarrow> pyexn + (error_response + int)" where
  "outcome_score f out =
     (case out of
        Inl x \<Rightarrow> Inl x
      | Inr (Failure e) \<Rightarrow> Inr (Inl e)
      | Inr (Success r) \<Rightarrow> Inr (Inr (f r)))"

section \<open>The engine over the interpreter's float operations\<close>

text \<open>
  Addition, multiplication and division of floats, the conversion of an integer to a
  float and \<^verbatim>\<open>round(x, n)\<close> belong to the interpreter, not to the program. Here they
  are parameters: \<open>compute_scores_on\<close> is \<^verbatim>\<open>_compute_scores\<close> statement by statement
  once more, over any such operations, among them the correctly rounded binary64
  ones. What is proved of it holds whatever the float arithmetic is.
  \<open>compute_scores\<close> is the instance with the exact operations of the first section
  (\<open>compute_scores_on_exact\<close>).
\<close>

record float_ops =
  f_add :: "pyfloat \<Rightarrow> pyfloat \<Rightarrow> pyfloat"
  f_mul :: "pyfloat \<Rightarrow> pyfloat \<Rightarrow> pyfloat"
  f_div :: "pyfloat \<Rightarrow> pyfloat \<Rightarrow> pyexn + pyfloat"
  f_of_int :: "int \<Rightarrow> pyexn + pyfloat"
  f_round_nd :: "pyfloat \<Rightarrow> nat \<Rightarrow> pyfloat"

definition compute_scores_on :: "float_ops \<Rightarrow> CreditInputs \<Rightarrow> pyexn + calc" where
  "compute_scores_on ops ci =
     (let asset = py_max (Fin 0) (total_asset_value ci);
          salary = py_max (Fin 0) (monthly_salary ci)
      in case f_of_int ops (work_experiences ci) of
           Inl e \<Rightarrow> Inl e
         | Inr expf \<Rightarrow>
     (let exper = py_max (Fin 0) expf;
          ag = max 0 (age ci)
      in case f_div ops asset ASSET_CAP of Inl e \<Rightarrow> Inl e | Inr aq \<Rightarrow>
        (case f_div ops salary SALARY_CAP of Inl e \<Rightarrow> Inl e | Inr sq \<Rightarrow>
        (case f_div ops exper EXP_CAP of Inl e \<Rightarrow> Inl e | Inr xq \<Rightarrow>
     (let asset_norm = py_min aq (Fin 1);
          salary_norm = py_min sq (Fin 1);
          exp_norm = py_min xq (Fin 1);
          asset_points = f_mul ops BONUS_POOL (WEIGHTS Asset);
          salary_points = f_mul ops BONUS_POOL (WEIGHTS Salary);
          exp_points = f_mul ops BONUS_POOL (WEIGHTS Experience);
          asset_score = f_mul ops asset_norm asset_points;
          salary_score = f_mul ops salary_norm salary_points;
          exp_score = f_mul ops exp_norm exp_points;
          raw = f_add ops (f_add ops (f_add ops BASE_SCORE asset_score) salary_score) exp_score
      in case py_round (py_max BASE_SCORE (py_min raw (f_add ops BASE_SCORE BONUS_POOL))) of
           Inl e \<Rightarrow> Inl e
         | Inr score \<Rightarrow>
     (let (cls, why) =
            (if 720 \<le> score \<and> 25 \<le> ag \<and> ag \<le> 65
               then (''high-value'', Reason_high_value)
             else if 640 \<le> score \<and> 21 \<le> ag \<and> ag \<le> 70
               then (''standard'', Reason_standard)
             else (''risk'', Reason_risk))
      in Inr \<lparr>credit_score = score,
               raw_score = raw,
               classification = cls,
               reason_class = why,
               comp_asset = \<lparr>c_value = asset, c_cap = ASSET_CAP,
                              c_norm = f_round_nd ops asset_norm 6,
                              c_points = f_round_nd ops asset_score 2\<rparr>,
               comp_salary = \<lparr>c_value = salary, c_cap = SALARY_CAP,
                               c_norm = f_round_nd ops salary_norm 6,
                               c_points = f_round_nd ops salary_score 2\<rparr>,
               comp_experience = \<lparr>c_value = exper, c_cap = EXP_CAP,
                                   c_norm = f_round_nd ops exp_norm 6,
                                   c_points = f_round_nd ops exp_score 2\<rparr>,
               base = BASE_SCORE,
               bonus_pool = BONUS_POOL,
               weights = WEIGHTS\<rparr>))))))"

definition exact_ops :: float_ops where
  "exact_ops = \<lparr>f_add = pf_add, f_mul = pf_mul, f_div = pf_div,
                 f_of_int = py_float_of_int, f_round_nd = py_round_nd\<rparr>"

text \<open>
  The same operations with \<^verbatim>\<open>round(x, n)\<close> switched off, and the rounding of the
  breakdown as a step of its own: the \<^verbatim>\<open>norm\<close> of each of the three components to 6
  digits, its \<^verbatim>\<open>points\<close> to 2 digits, every other field untouched.
\<close>

definition without_rounding :: "float_ops \<Rightarrow> float_ops" where
  "without_rounding ops = ops\<lparr>f_round_nd := (\<lambda>x n. x)\<rparr>"

definition round_component :: "float_ops \<Rightarrow> component \<Rightarrow> component" where
  "round_component ops c =
     c\<lparr>c_norm := f_round_nd ops (c_norm c) 6, c_points := f_round_nd ops (c_points c) 2\<rparr>"

definition round_breakdown :: "float_ops \<Rightarrow> calc \<Rightarrow> calc" where
  "round_breakdown ops u =
     u\<lparr>comp_asset := round_component ops (comp_asset u),
       comp_salary := round_component ops (comp_salary u),
       comp_experience := round_component ops (comp_experience u)\<rparr>"

section \<open>Facts about the float operations\<close>

lemma py_max_Fin: "py_max (Fin a) (Fin b) = Fin (max a b)"
  by (simp add: py_max_def max_def)

lemma py_min_Fin: "py_min (Fin a) (Fin b) = Fin (min a b)"
  by (simp add: py_min_def min_def)

text \<open>Clamping at zero, dividing by a positive cap and cutting at 1 gives the ratio.\<close>

lemma norm_spec_norm:
  assumes "0 < cap"
  shows "\<exists>q. pf_div (py_max (Fin 0) x) (Fin cap) = Inr q
            \<and> py_min q (Fin 1) = Fin (spec_norm x cap)"
  using assms
  by (cases x) (auto simp: py_max_def py_min_def spec_norm_def min_def max_def)

lemma spec_norm_bounds: "0 < cap \<Longrightarrow> 0 \<le> spec_norm x cap \<and> spec_norm x cap \<le> 1"
  by (cases x) (auto simp: spec_norm_def)

lemma spec_norm_mono: "0 < cap \<Longrightarrow> pf_lt x y \<Longrightarrow> spec_norm x cap \<le> spec_norm y cap"
  by (cases x; cases y) (auto simp: spec_norm_def min_def max_def divide_right_mono)

lemma spec_norm_saturated:
  "0 < cap \<Longrightarrow> pf_lt (Fin cap) x \<or> x = Fin cap \<Longrightarrow> spec_norm x cap = 1"
  by (cases x) (auto simp: spec_norm_def min_def max_def)

lemma round_half_even_cases:
  "round_half_even x = \<lfloor>x\<rfloor> \<or> round_half_even x = \<lfloor>x\<rfloor> + 1"
  by (simp add: round_half_even_def Let_def)

lemma round_half_even_of_int: "round_half_even (of_int n) = n"
  by (simp add: round_half_even_def Let_def)

lemma round_half_even_mono:
  assumes "x \<le> y"
  shows "round_half_even x \<le> round_half_even y"
proof (cases "\<lfloor>x\<rfloor> = \<lfloor>y\<rfloor>")
  case True
  with assms show ?thesis
    by (auto simp: round_half_even_def Let_def)
next
  case False
  with assms have "\<lfloor>x\<rfloor> + 1 \<le> \<lfloor>y\<rfloor>"
    using floor_mono[of x y] by linarith
  moreover have "round_half_even x \<le> \<lfloor>x\<rfloor> + 1"
    using round_half_even_cases[of x] by linarith
  moreover have "\<lfloor>y\<rfloor> \<le> round_half_even y"
    using round_half_even_cases[of y] by linarith
  ultimately show ?thesis by linarith
qed

lemma round_half_even_clamp:
  "500 \<le> round_half_even (max 500 (min r 800))
   \<and> round_half_even (max 500 (min r 800)) \<le> 800"
proof -
  have "round_half_even (of_int 500) \<le> round_half_even (max 500 (min r 800))"
    by (rule round_half_even_mono) simp
  moreover have "round_half_even (max 500 (min r 800)) \<le> round_half_even (of_int 800)"
    by (rule round_half_even_mono) simp
  ultimately show ?thesis
    by (simp only: round_half_even_of_int)
qed

section \<open>The engine in closed form\<close>

text \<open>
  The engine raises exactly when \<^verbatim>\<open>float(ci.work_experiences)\<close> does; otherwise it
  returns the specification's result.
\<close>

lemma compute_scores_closed:
  "compute_scores ci =
     (if float_overflow_bound \<le> \<bar>work_experiences ci\<bar> then Inl OverflowError
      else Inr (spec_result ci))"
proof -
  obtain aq where a:
    "pf_div (py_max (Fin 0) (total_asset_value ci)) ASSET_CAP = Inr aq"
    "py_min aq (Fin 1) = Fin (spec_norm (total_asset_value ci) 10000000000)"
    using norm_spec_norm[of 10000000000 "total_asset_value ci"]
    by (auto simp: ASSET_CAP_def)
  obtain sq where s:
    "pf_div (py_max (Fin 0) (monthly_salary ci)) SALARY_CAP = Inr sq"
    "py_min sq (Fin 1) = Fin (spec_norm (monthly_salary ci) 200000000)"
    using norm_spec_norm[of 200000000 "monthly_salary ci"]
    by (auto simp: SALARY_CAP_def)
  obtain xq where x:
    "pf_div (py_max (Fin 0) (Fin (of_int (work_experiences ci)))) EXP_CAP = Inr xq"
    "py_min xq (Fin 1) = Fin (spec_norm (Fin (of_int (work_experiences ci))) 40)"
    using norm_spec_norm[of 40 "Fin (of_int (work_experiences ci))"]
    by (auto simp: EXP_CAP_def)
  show ?thesis
    using a s x
    by (simp add: compute_scores_def spec_result_def py_float_of_int_def Let_def
        BONUS_POOL_def BASE_SCORE_def spec_raw_score_def spec_classification_def
        py_max_Fin py_min_Fin case_prod_beta mult.commute)
qed

lemma compute_scores_Inr:
  assumes "compute_scores ci = Inr r"
  shows "\<bar>work_experiences ci\<bar> < float_overflow_bound" and "r = spec_result ci"
  using assms by (simp_all add: compute_scores_closed split: if_splits)

lemma compute_scores_Inl:
  "compute_scores ci = Inl x \<longleftrightarrow>
     x = OverflowError \<and> float_overflow_bound \<le> \<bar>work_experiences ci\<bar>"
  by (auto simp: compute_scores_closed)

lemma compute_scores_returns:
  "\<bar>work_experiences ci\<bar> < float_overflow_bound \<Longrightarrow>
     compute_scores ci = Inr (spec_result ci)"
  by (simp add: compute_scores_closed)

lemma spec_result_score:
  "credit_score (spec_result ci) = round_half_even (max 500 (min (spec_raw_score ci) 800))"
  by (simp add: spec_result_def Let_def)

lemma spec_result_classification:
  "classification (spec_result ci) =
     spec_classification (credit_score (spec_result ci)) (max 0 (age ci))"
  by (simp add: spec_result_def Let_def)

lemma clamped_round_mono:
  "x \<le> y \<Longrightarrow>
     round_half_even (max 500 (min x 800)) \<le> round_half_even (max 500 (min y 800))"
  by (rule round_half_even_mono) (simp add: max_def min_def)

lemma sanitize_and_cast_Inr:
  assumes "sanitize_and_cast inp = Inr ci"
  shows "\<not> pf_lt (total_asset_value ci) (Fin 0)" and "\<not> pf_lt (monthly_salary ci) (Fin 0)"
    and "0 \<le> work_experiences ci" and "0 \<le> age ci"
  using assms
  by (auto simp: sanitize_and_cast_def split: sum.splits if_splits)

lemma spec_result_raw: "raw_score (spec_result ci) = Fin (spec_raw_score ci)"
  by (simp add: spec_result_def Let_def)

lemma spec_result_asset:
  "c_norm (comp_asset (spec_result ci)) =
     py_round_nd (Fin (spec_norm (total_asset_value ci) 10000000000)) 6"
  "c_points (comp_asset (spec_result ci)) =
     py_round_nd (Fin (spec_norm (total_asset_value ci) 10000000000 * 150)) 2"
  by (simp_all add: spec_result_def Let_def)

lemma spec_result_salary:
  "c_norm (comp_salary (spec_result ci)) =
     py_round_nd (Fin (spec_norm (monthly_salary ci) 200000000)) 6"
  "c_points (comp_salary (spec_result ci)) =
     py_round_nd (Fin (spec_norm (monthly_salary ci) 200000000 * 90)) 2"
  by (simp_all add: spec_result_def Let_def)

lemma spec_result_experience:
  "c_norm (comp_experience (spec_result ci)) =
     py_round_nd (Fin (spec_norm (Fin (of_int (work_experiences ci))) 40)) 6"
  "c_points (comp_experience (spec_result ci)) =
     py_round_nd (Fin (spec_norm (Fin (of_int (work_experiences ci))) 40 * 60)) 2"
  by (simp_all add: spec_result_def Let_def)

lemma round_half_even_whole:
  "round_half_even (numeral w) = numeral w" "round_half_even 1 = 1" "round_half_even 0 = 0"
  using round_half_even_of_int[of "numeral w"] round_half_even_of_int[of 1]
    round_half_even_of_int[of 0]
  by simp_all

lemma spec_norm_above:
  assumes "0 < cap" and "spec_norm x cap = 1" and "pf_lt x y"
  shows "spec_norm y cap = 1"
  using spec_norm_mono[OF assms(1,3)] spec_norm_bounds[OF assms(1), of y] assms(2)
  by simp

text \<open>The engine of the first sections is the parametrised one at the exact operations.\<close>

lemma compute_scores_on_exact: "compute_scores_on exact_ops ci = compute_scores ci"
  unfolding compute_scores_on_def compute_scores_def exact_ops_def float_ops.simps
  by (rule refl)

section \<open>Facts about the text conversions\<close>

text \<open>
  A string that \<^verbatim>\<open>int\<close> accepts consists of digits and underscores after its sign,
  so \<^verbatim>\<open>float\<close> reads the same whole number from it (or an infinity when it is too
  large). Hence a string that \<^verbatim>\<open>float\<close> reads as a number with a fractional part
  is one that \<^verbatim>\<open>int\<close> rejects.
\<close>

lemma digit_of_Some: "digit_of c = Some v \<Longrightarrow> c \<in> set ''0123456789''"
  by (simp add: digit_of_def split: if_splits)

lemma digit_of_cases:
  assumes "digit_of c \<noteq> None"
  shows "c \<in> set ''0123456789''"
  using assms digit_of_Some by (cases "digit_of c") auto

lemma scan_digits_chars:
  "scan_digits s = Some ds \<Longrightarrow> c \<in> set s \<Longrightarrow> digit_of c \<noteq> None \<or> c = CHR ''_''"
proof (induction s arbitrary: ds rule: scan_digits.induct)
  case 1
  then show ?case by simp
next
  case (2 c0)
  then show ?case by auto
next
  case (3 c0 d cs)
  then show ?case
    by (auto split: option.splits if_splits)
qed

lemma scan_digits_hd:
  "scan_digits s = Some ds \<Longrightarrow> \<exists>c cs. s = c # cs \<and> digit_of c \<noteq> None"
  by (cases s rule: scan_digits.cases) (auto split: option.splits)

lemma digit_char_facts:
  assumes "digit_of c \<noteq> None \<or> c = CHR ''_''"
  shows "c \<noteq> CHR ''.''" "c \<noteq> CHR ''e''" "c \<noteq> CHR ''E''"
  using assms digit_of_cases[of c] by auto

lemma digit_to_lower:
  assumes "digit_of c \<noteq> None"
  shows "to_lower c \<noteq> CHR ''i''" "to_lower c \<noteq> CHR ''n''"
  using digit_of_cases[OF assms] by (auto simp: to_lower_def)

lemma split_at_none:
  assumes "\<And>c. c \<in> set s \<Longrightarrow> \<not> P c"
  shows "split_at P s = (s, None)"
proof -
  have tw: "takeWhile (\<lambda>c. \<not> P c) s = s"
    using assms by (simp add: takeWhile_eq_all_conv)
  have dw: "dropWhile (\<lambda>c. \<not> P c) s = []"
    using assms by (simp add: dropWhile_eq_Nil_conv)
  show ?thesis
    unfolding split_at_def tw dw by simp
qed

lemma digits_not_a_name:
  assumes "u = c # cs" and "digit_of c \<noteq> None"
  shows "map to_lower u \<noteq> ''inf''" "map to_lower u \<noteq> ''infinity''"
    "map to_lower u \<noteq> ''nan''"
  using digit_to_lower[OF assms(2)] by (simp_all add: assms(1))

lemma digits_no_exponent:
  assumes "\<And>c. c \<in> set u \<Longrightarrow> digit_of c \<noteq> None \<or> c = CHR ''_''"
  shows "split_at (\<lambda>c. c = CHR ''e'' \<or> c = CHR ''E'') u = (u, None)"
proof (rule split_at_none)
  fix c
  assume "c \<in> set u"
  from digit_char_facts[OF assms[OF this]]
  show "\<not> (c = CHR ''e'' \<or> c = CHR ''E'')" by simp
qed

lemma digits_no_point:
  assumes "\<And>c. c \<in> set u \<Longrightarrow> digit_of c \<noteq> None \<or> c = CHR ''_''"
  shows "split_at (\<lambda>c. c = CHR ''.'') u = (u, None)"
proof (rule split_at_none)
  fix c
  assume "c \<in> set u"
  from digit_char_facts[OF assms[OF this]]
  show "\<not> (c = CHR ''.'')" by simp
qed

lemma digits_mantissa:
  assumes "scan_digits u = Some ds" and "split_at (\<lambda>c. c = CHR ''.'') u = (u, None)"
  shows "parse_mantissa u = Some (ds, 0)"
  by (simp add: parse_mantissa_def assms)

lemma whole_number_float:
  assumes "map to_lower u \<noteq> ''inf''" "map to_lower u \<noteq> ''infinity''"
    "map to_lower u \<noteq> ''nan''"
    and e: "split_at (\<lambda>c. c = CHR ''e'' \<or> c = CHR ''E'') u = (u, None)"
    and m: "parse_mantissa u = Some (ds, 0)"
  shows "parse_unsigned_float u =
           Some (if real_of_int float_overflow_bound \<le> real (digits_value ds) then PInf
                 else Fin (real (digits_value ds)))"
  unfolding parse_unsigned_float_def Let_def e using assms(1-3) m
  by (simp add: pow10_def)

lemma scan_digits_float:
  assumes "scan_digits u = Some ds"
  shows "parse_unsigned_float u =
           Some (if real_of_int float_overflow_bound \<le> real (digits_value ds) then PInf
                 else Fin (real (digits_value ds)))"
proof -
  have ch: "digit_of c \<noteq> None \<or> c = CHR ''_''" if "c \<in> set u" for c
    using scan_digits_chars[OF assms that] .
  obtain c cs where u: "u = c # cs" and d: "digit_of c \<noteq> None"
    using scan_digits_hd[OF assms] by blast
  show ?thesis
    by (rule whole_number_float[OF digits_not_a_name[OF u d] digits_no_exponent[OF ch]
          digits_mantissa[OF assms digits_no_point[OF ch]]])
qed

lemma parse_int_float:
  assumes "parse_int s = Some n"
  shows "parse_float s = Some (Fin (of_int n)) \<or> parse_float s = Some PInf
       \<or> parse_float s = Some NInf"
proof (cases "strip s")
  case Nil
  with assms show ?thesis by (simp add: parse_int_def parse_signed_digits_def)
next
  case (Cons c cs)
  show ?thesis
  proof (cases "c = CHR ''-''")
    case True
    then obtain ds where ds: "scan_digits cs = Some ds" and n: "n = - int (digits_value ds)"
      using assms Cons by (auto simp: parse_int_def parse_signed_digits_def)
    show ?thesis
      using True n by (simp add: parse_float_def Cons scan_digits_float[OF ds])
  next
    case False
    note no_minus = this
    show ?thesis
    proof (cases "c = CHR ''+''")
      case True
      then obtain ds where ds: "scan_digits cs = Some ds" and n: "n = int (digits_value ds)"
        using assms Cons by (auto simp: parse_int_def parse_signed_digits_def)
      show ?thesis
        using True n by (simp add: parse_float_def Cons scan_digits_float[OF ds])
    next
      case False
      then obtain ds where ds: "scan_digits (c # cs) = Some ds"
        and n: "n = int (digits_value ds)"
        using assms Cons no_minus by (auto simp: parse_int_def parse_signed_digits_def)
      show ?thesis
        using False no_minus n
        by (simp add: parse_float_def Cons scan_digits_float[OF ds])
    qed
  qed
qed

lemma fractional_string_not_int:
  assumes "parse_float s = Some (Fin x)" and "real_of_int \<lfloor>x\<rfloor> \<noteq> x"
  shows "parse_int s = None"
proof (cases "parse_int s")
  case None
  then show ?thesis .
next
  case (Some n)
  from parse_int_float[OF Some] assms(1) have "x = of_int n" by simp
  with assms(2) show ?thesis by simp
qed

section \<open>The tools on a sanitizer failure\<close>

text \<open>
  The sanitizer fails as soon as one of the four conversions raises or one of the four
  converted values is negative, and on an accepted request the record holds the four
  converted values.
\<close>

lemma invalid_field_rejected:
  assumes "py_float (dict_get inp ''total_asset_value'' (PInt 0)) = Inl x
         \<or> py_float (dict_get inp ''monthly_salary'' (PInt 0)) = Inl x
         \<or> py_int (dict_get inp ''work_experiences'' (PInt 0)) = Inl x
         \<or> py_int (dict_get inp ''age'' (PInt 0)) = Inl x
         \<or> (\<exists>a. py_float (dict_get inp ''total_asset_value'' (PInt 0)) = Inr a
                \<and> pf_lt a (Fin 0))
         \<or> (\<exists>a. py_float (dict_get inp ''monthly_salary'' (PInt 0)) = Inr a
                \<and> pf_lt a (Fin 0))
         \<or> (\<exists>n. py_int (dict_get inp ''work_experiences'' (PInt 0)) = Inr n \<and> n < 0)
         \<or> (\<exists>n. py_int (dict_get inp ''age'' (PInt 0)) = Inr n \<and> n < 0)"
  shows "\<exists>e. sanitize_and_cast inp = Inl e"
  using assms
  by (auto simp: sanitize_and_cast_def split: sum.splits)

lemma accepted_fields:
  assumes "sanitize_and_cast inp = Inr ci"
  shows "py_float (dict_get inp ''total_asset_value'' (PInt 0)) = Inr (total_asset_value ci)"
    and "py_float (dict_get inp ''monthly_salary'' (PInt 0)) = Inr (monthly_salary ci)"
    and "py_int (dict_get inp ''work_experiences'' (PInt 0)) = Inr (work_experiences ci)"
    and "py_int (dict_get inp ''age'' (PInt 0)) = Inr (age ci)"
  using assms
  by (auto simp: sanitize_and_cast_def split: sum.splits if_splits)

text \<open>A failure of the sanitizer is returned as data by both tools.\<close>

lemma sanitizer_failure_returned:
  assumes "sanitize_and_cast inp = Inl e"
  shows "classify_customer inp = Inr (Failure \<lparr>error = ''invalid_input'', details = e\<rparr>)"
    and "score_breakdown inp = Inr (Failure \<lparr>error = ''invalid_input'', details = e\<rparr>)"
  using assms by (simp_all add: classify_customer_def score_breakdown_def)

text \<open>
  Replacing one of the two integer fields of an accepted request: a value that
  \<^verbatim>\<open>int\<close> converts to a non-negative number is accepted in its place, and a value
  on which \<^verbatim>\<open>int\<close> raises makes the sanitizer fail with that exception.
\<close>

lemma sanitize_update_exp:
  assumes ok: "sanitize_and_cast inp = Inr ci"
    and v: "py_int v = Inr n" "0 \<le> n"
  shows "sanitize_and_cast (inp(''work_experiences'' \<mapsto> v)) = Inr (ci\<lparr>work_experiences := n\<rparr>)"
  using ok v
  by (auto simp: sanitize_and_cast_def dict_get_def split: sum.splits if_splits)

lemma sanitize_update_age:
  assumes ok: "sanitize_and_cast inp = Inr ci"
    and v: "py_int v = Inr n" "0 \<le> n"
  shows "sanitize_and_cast (inp(''age'' \<mapsto> v)) = Inr (ci\<lparr>age := n\<rparr>)"
  using ok v
  by (auto simp: sanitize_and_cast_def dict_get_def split: sum.splits if_splits)

lemma sanitize_bad_exp:
  assumes ok: "sanitize_and_cast inp = Inr ci"
    and v: "py_int v = Inl e"
  shows "sanitize_and_cast (inp(''work_experiences'' \<mapsto> v)) = Inl (Invalid_input_types e)"
    "sanitize_and_cast (inp(''age'' \<mapsto> v)) = Inl (Invalid_input_types e)"
  using ok v
  by (auto simp: sanitize_and_cast_def dict_get_def split: sum.splits if_splits)

text \<open>The definitions to unfold when a call is evaluated on a concrete request.\<close>

lemmas eval_defs = classify_customer_def score_breakdown_def sanitize_and_cast_def
  compute_scores_def dict_get_def py_float_of_int_def float_overflow_bound_def
  py_max_def py_min_def ASSET_CAP_def SALARY_CAP_def EXP_CAP_def BASE_SCORE_def
  BONUS_POOL_def round_half_even_def Let_def

section \<open>The claims\<close>

subsection \<open>C1: range of the credit score\<close>

text \<open>
  C1. For every request that passes the sanitizer, the \<^verbatim>\<open>credit_score\<close> returned by
  \<^verbatim>\<open>classify_customer\<close> and by \<^verbatim>\<open>score_breakdown\<close> lies between the base score 500
  and base score plus bonus pool, 800. The theorem also says what else can happen on
  such a request: no error object, and an exception only from the conversion of a
  \<^verbatim>\<open>work_experiences\<close> beyond the range of \<^verbatim>\<open>float\<close>.
\<close>

theorem credit_score_bounds:
  assumes "sanitize_and_cast inp = Inr ci"
  shows "((\<exists>r. classify_customer inp = Inr (Success r)
              \<and> 500 \<le> cc_credit_score r \<and> cc_credit_score r \<le> 800)
          \<or> (classify_customer inp = Inl OverflowError
              \<and> float_overflow_bound \<le> work_experiences ci))
       \<and> ((\<exists>r. score_breakdown inp = Inr (Success r)
              \<and> 500 \<le> sb_credit_score r \<and> sb_credit_score r \<le> 800)
          \<or> (score_breakdown inp = Inl OverflowError
              \<and> float_overflow_bound \<le> work_experiences ci))"
proof (cases "compute_scores ci")
  case (Inl x)
  then have "x = OverflowError" "float_overflow_bound \<le> \<bar>work_experiences ci\<bar>"
    by (simp_all add: compute_scores_Inl)
  moreover have "0 \<le> work_experiences ci"
    using assms by (rule sanitize_and_cast_Inr)
  ultimately show ?thesis
    using assms Inl by (simp add: classify_customer_def score_breakdown_def)
next
  case (Inr r)
  then have "r = spec_result ci"
    by (rule compute_scores_Inr)
  then have "500 \<le> credit_score r \<and> credit_score r \<le> 800"
    using round_half_even_clamp[of "spec_raw_score ci"] by (simp add: spec_result_score)
  then show ?thesis
    using assms Inr by (simp add: classify_customer_def score_breakdown_def)
qed

theorem credit_score_bounds_witness:
  "sanitize_and_cast [''monthly_salary'' \<mapsto> PInt 100000000, ''age'' \<mapsto> PInt 30] =
     Inr \<lparr>total_asset_value = Fin 0, monthly_salary = Fin 100000000,
          work_experiences = 0, age = 30\<rparr>
   \<and> (\<exists>r. classify_customer [''monthly_salary'' \<mapsto> PInt 100000000, ''age'' \<mapsto> PInt 30]
             = Inr (Success r)
          \<and> 500 \<le> cc_credit_score r \<and> cc_credit_score r \<le> 800)
   \<and> (\<exists>r. score_breakdown [''monthly_salary'' \<mapsto> PInt 100000000, ''age'' \<mapsto> PInt 30]
             = Inr (Success r)
          \<and> 500 \<le> sb_credit_score r \<and> sb_credit_score r \<le> 800)"
proof -
  have h: "sanitize_and_cast [''monthly_salary'' \<mapsto> PInt 100000000, ''age'' \<mapsto> PInt 30] =
     Inr \<lparr>total_asset_value = Fin 0, monthly_salary = Fin 100000000,
          work_experiences = 0, age = 30\<rparr>"
    by (simp add: eval_defs)
  have "\<not> float_overflow_bound \<le> 0"
    by (simp add: float_overflow_bound_def)
  with h credit_score_bounds[OF h] show ?thesis by simp
qed

subsection \<open>C2: monotonicity\<close>

text \<open>
  C2. Raising one of asset, salary or experience of a record and keeping the other
  fields never lowers the \<^verbatim>\<open>credit_score\<close>. For asset and salary the engine returns
  on the raised record whenever it returned on the original one. For experience it
  returns as long as the raised value is in the range of \<^verbatim>\<open>float\<close>, and raises
  \<^verbatim>\<open>OverflowError\<close> beyond it (the defect of C4), so that there is no score to compare.
\<close>

theorem credit_score_monotone:
  assumes "compute_scores ci = Inr r"
  shows "(pf_lt (total_asset_value ci) a' \<longrightarrow>
            (\<exists>r'. compute_scores (ci\<lparr>total_asset_value := a'\<rparr>) = Inr r'
                 \<and> credit_score r \<le> credit_score r'))
       \<and> (pf_lt (monthly_salary ci) s' \<longrightarrow>
            (\<exists>r'. compute_scores (ci\<lparr>monthly_salary := s'\<rparr>) = Inr r'
                 \<and> credit_score r \<le> credit_score r'))
       \<and> (work_experiences ci < e' \<longrightarrow>
            (if e' < float_overflow_bound
             then \<exists>r'. compute_scores (ci\<lparr>work_experiences := e'\<rparr>) = Inr r'
                      \<and> credit_score r \<le> credit_score r'
             else compute_scores (ci\<lparr>work_experiences := e'\<rparr>) = Inl OverflowError))"
proof -
  have b: "\<bar>work_experiences ci\<bar> < float_overflow_bound" and r: "r = spec_result ci"
    using assms by (rule compute_scores_Inr)+
  have asset: "\<exists>r'. compute_scores (ci\<lparr>total_asset_value := a'\<rparr>) = Inr r'
                 \<and> credit_score r \<le> credit_score r'"
    if lt: "pf_lt (total_asset_value ci) a'"
  proof -
    let ?ci = "ci\<lparr>total_asset_value := a'\<rparr>"
    have "compute_scores ?ci = Inr (spec_result ?ci)"
      using b by (simp add: compute_scores_returns)
    moreover have "spec_raw_score ci \<le> spec_raw_score ?ci"
      using spec_norm_mono[OF _ lt, of 10000000000] by (simp add: spec_raw_score_def)
    then have "credit_score r \<le> credit_score (spec_result ?ci)"
      unfolding r spec_result_score by (rule clamped_round_mono)
    ultimately show ?thesis by blast
  qed
  have salary: "\<exists>r'. compute_scores (ci\<lparr>monthly_salary := s'\<rparr>) = Inr r'
                 \<and> credit_score r \<le> credit_score r'"
    if lt: "pf_lt (monthly_salary ci) s'"
  proof -
    let ?ci = "ci\<lparr>monthly_salary := s'\<rparr>"
    have "compute_scores ?ci = Inr (spec_result ?ci)"
      using b by (simp add: compute_scores_returns)
    moreover have "spec_raw_score ci \<le> spec_raw_score ?ci"
      using spec_norm_mono[OF _ lt, of 200000000] by (simp add: spec_raw_score_def)
    then have "credit_score r \<le> credit_score (spec_result ?ci)"
      unfolding r spec_result_score by (rule clamped_round_mono)
    ultimately show ?thesis by blast
  qed
  have exper: "\<exists>r'. compute_scores (ci\<lparr>work_experiences := e'\<rparr>) = Inr r'
                 \<and> credit_score r \<le> credit_score r'"
    if lt: "work_experiences ci < e'" and fits: "e' < float_overflow_bound"
  proof -
    let ?ci = "ci\<lparr>work_experiences := e'\<rparr>"
    have "\<bar>work_experiences ?ci\<bar> < float_overflow_bound"
      using b lt fits by simp
    then have "compute_scores ?ci = Inr (spec_result ?ci)"
      by (rule compute_scores_returns)
    moreover have "pf_lt (Fin (of_int (work_experiences ci))) (Fin (of_int e'))"
      using lt by simp
    then have "spec_raw_score ci \<le> spec_raw_score ?ci"
      using spec_norm_mono[of 40 "Fin (of_int (work_experiences ci))" "Fin (of_int e')"]
      by (simp add: spec_raw_score_def)
    then have "credit_score r \<le> credit_score (spec_result ?ci)"
      unfolding r spec_result_score by (rule clamped_round_mono)
    ultimately show ?thesis by blast
  qed
  have over: "compute_scores (ci\<lparr>work_experiences := e'\<rparr>) = Inl OverflowError"
    if "work_experiences ci < e'" "\<not> e' < float_overflow_bound"
    using that by (simp add: compute_scores_Inl)
  show ?thesis
    using asset salary exper over by simp
qed

theorem credit_score_monotone_witness:
  "\<exists>r. compute_scores \<lparr>total_asset_value = Fin 1000000000, monthly_salary = Fin 0,
                         work_experiences = 10, age = 30\<rparr> = Inr r
     \<and> credit_score r = 530
     \<and> (\<exists>r'. compute_scores \<lparr>total_asset_value = Fin 2000000000, monthly_salary = Fin 0,
                         work_experiences = 10, age = 30\<rparr> = Inr r'
            \<and> credit_score r \<le> credit_score r')
     \<and> (\<exists>r'. compute_scores \<lparr>total_asset_value = Fin 1000000000, monthly_salary = PInf,
                         work_experiences = 10, age = 30\<rparr> = Inr r'
            \<and> credit_score r \<le> credit_score r')
     \<and> (\<exists>r'. compute_scores \<lparr>total_asset_value = Fin 1000000000, monthly_salary = Fin 0,
                         work_experiences = 11, age = 30\<rparr> = Inr r'
            \<and> credit_score r \<le> credit_score r')
     \<and> compute_scores \<lparr>total_asset_value = Fin 1000000000, monthly_salary = Fin 0,
                         work_experiences = 10 ^ 400, age = 30\<rparr> = Inl OverflowError"
proof -
  let ?ci = "\<lparr>total_asset_value = Fin 1000000000, monthly_salary = Fin 0,
              work_experiences = 10, age = 30\<rparr>"
  have "\<exists>r. compute_scores ?ci = Inr r \<and> credit_score r = 530"
    by (simp add: eval_defs)
  then obtain r where r: "compute_scores ?ci = Inr r" "credit_score r = 530"
    by blast
  have small: "(11 :: int) < float_overflow_bound" and large: "\<not> (10 ^ 400 :: int) < float_overflow_bound"
    by (simp_all add: float_overflow_bound_def)
  from credit_score_monotone[OF r(1), of "Fin 2000000000" PInf 11]
    credit_score_monotone[OF r(1), of "Fin 2000000000" PInf "10 ^ 400"]
    r small large
  show ?thesis by simp
qed

subsection \<open>C3: the classification rule\<close>

text \<open>
  C3. Whenever the engine returns, its label is the specification's rule applied to
  the returned score and the age of the record, read top-down: \<^verbatim>\<open>high-value\<close> for a
  score of at least 720 and an age from 25 to 65, else \<^verbatim>\<open>standard\<close> for a score of
  at least 640 and an age from 21 to 70, else \<^verbatim>\<open>risk\<close>. The label is always one of
  the three, and \<^verbatim>\<open>classify_customer\<close> hands the score, the label and the age on
  unchanged.
\<close>

theorem classification_rule:
  assumes "sanitize_and_cast inp = Inr ci" and "compute_scores ci = Inr r"
  shows "classification r = spec_classification (credit_score r) (age ci)
       \<and> classification r \<in> {''high-value'', ''standard'', ''risk''}
       \<and> (\<exists>res. classify_customer inp = Inr (Success res)
              \<and> cc_credit_score res = credit_score r
              \<and> cc_classification res = classification r
              \<and> r_age (cc_reasons res) = age ci)"
proof -
  have "r = spec_result ci"
    using assms(2) by (rule compute_scores_Inr)
  then have "classification r = spec_classification (credit_score r) (max 0 (age ci))"
    by (simp add: spec_result_classification)
  then have "classification r = spec_classification (credit_score r) (age ci)"
    by (auto simp: spec_classification_def max_def)
  moreover have "spec_classification (credit_score r) (age ci)
      \<in> {''high-value'', ''standard'', ''risk''}"
    by (simp add: spec_classification_def)
  ultimately show ?thesis
    using assms by (simp add: classify_customer_def)
qed

theorem classification_rule_witness:
  "\<exists>r. sanitize_and_cast
           [''total_asset_value'' \<mapsto> PInt 10000000000,
            ''monthly_salary'' \<mapsto> PInt 200000000, ''age'' \<mapsto> PInt 68] =
         Inr \<lparr>total_asset_value = Fin 10000000000, monthly_salary = Fin 200000000,
              work_experiences = 0, age = 68\<rparr>
     \<and> compute_scores \<lparr>total_asset_value = Fin 10000000000, monthly_salary = Fin 200000000,
              work_experiences = 0, age = 68\<rparr> = Inr r
     \<and> credit_score r = 740
     \<and> classification r = spec_classification 740 68
     \<and> classification r = ''standard''"
proof -
  let ?inp = "[''total_asset_value'' \<mapsto> PInt 10000000000,
               ''monthly_salary'' \<mapsto> PInt 200000000, ''age'' \<mapsto> PInt 68]"
  let ?ci = "\<lparr>total_asset_value = Fin 10000000000, monthly_salary = Fin 200000000,
              work_experiences = 0, age = 68\<rparr>"
  have h: "sanitize_and_cast ?inp = Inr ?ci"
    by (simp add: eval_defs)
  have "\<exists>r. compute_scores ?ci = Inr r \<and> credit_score r = 740"
    by (simp add: eval_defs)
  then obtain r where r: "compute_scores ?ci = Inr r" "credit_score r = 740"
    by blast
  from classification_rule[OF h r(1)] r h show ?thesis
    by (auto simp: spec_classification_def)
qed

subsection \<open>C4: errors returned as data\<close>

text \<open>
  C4. The claim: a request with a field that is negative or fails its numeric
  conversion gets the error object \<^verbatim>\<open>{error: "invalid_input", details}\<close> from both
  tools, no exception leaves a tool, and there is no other kind of error. The code
  does reject every such request in the sanitizer (\<open>invalid_field_rejected\<close>) and
  return the failure as data (\<open>sanitizer_failure_returned\<close>), but the engine converts \<^verbatim>\<open>work_experiences\<close> to a float outside every \<^verbatim>\<open>try\<close>.
  On the request \<^verbatim>\<open>{"work_experiences": 10**400}\<close> the sanitizer accepts the integer,
  the conversion raises \<^verbatim>\<open>OverflowError\<close>, and the exception leaves both tools. The
  same number sent as \<^verbatim>\<open>total_asset_value\<close> fails inside the sanitizer and comes
  back as the error object.
\<close>

theorem overflow_escapes_operations:
  "sanitize_and_cast [''work_experiences'' \<mapsto> PInt (10 ^ 400)] =
     Inr \<lparr>total_asset_value = Fin 0, monthly_salary = Fin 0,
          work_experiences = 10 ^ 400, age = 0\<rparr>
   \<and> classify_customer [''work_experiences'' \<mapsto> PInt (10 ^ 400)] = Inl OverflowError
   \<and> score_breakdown [''work_experiences'' \<mapsto> PInt (10 ^ 400)] = Inl OverflowError
   \<and> classify_customer [''total_asset_value'' \<mapsto> PInt (10 ^ 400)] =
       Inr (Failure \<lparr>error = ''invalid_input'',
                     details = Invalid_input_types OverflowError\<rparr>)"
  by (simp add: eval_defs)

subsection \<open>C5: one score for both tools\<close>

text \<open>
  C5. On every request the two tools agree: both return a result with the same
  \<^verbatim>\<open>credit_score\<close>, or both return the same error object, or the same exception
  leaves both.
\<close>

theorem same_credit_score:
  "outcome_score cc_credit_score (classify_customer inp) =
   outcome_score sb_credit_score (score_breakdown inp)"
  by (simp add: outcome_score_def classify_customer_def score_breakdown_def
      split: sum.splits)

subsection \<open>C6: saturation at the cap\<close>

text \<open>
  C6. Once a factor has reached its cap, its ratio is 1 and its points are its full
  share (150, 90, 60), and raising the factor further changes neither of them nor the
  \<^verbatim>\<open>credit_score\<close>. This holds for asset and salary up to infinity; for experience
  it holds for every value in the range of \<^verbatim>\<open>float\<close>, beyond which the engine raises
  \<^verbatim>\<open>OverflowError\<close> (the defect of C4) and returns nothing.
\<close>

theorem saturation:
  assumes "compute_scores ci = Inr r"
  shows "(pf_lt ASSET_CAP (total_asset_value ci) \<or> total_asset_value ci = ASSET_CAP \<longrightarrow>
            c_norm (comp_asset r) = Fin 1 \<and> c_points (comp_asset r) = Fin 150
          \<and> (pf_lt (total_asset_value ci) a' \<longrightarrow>
               (\<exists>r'. compute_scores (ci\<lparr>total_asset_value := a'\<rparr>) = Inr r'
                    \<and> c_norm (comp_asset r') = c_norm (comp_asset r)
                    \<and> c_points (comp_asset r') = c_points (comp_asset r)
                    \<and> raw_score r' = raw_score r
                    \<and> credit_score r' = credit_score r)))
       \<and> (pf_lt SALARY_CAP (monthly_salary ci) \<or> monthly_salary ci = SALARY_CAP \<longrightarrow>
            c_norm (comp_salary r) = Fin 1 \<and> c_points (comp_salary r) = Fin 90
          \<and> (pf_lt (monthly_salary ci) s' \<longrightarrow>
               (\<exists>r'. compute_scores (ci\<lparr>monthly_salary := s'\<rparr>) = Inr r'
                    \<and> c_norm (comp_salary r') = c_norm (comp_salary r)
                    \<and> c_points (comp_salary r') = c_points (comp_salary r)
                    \<and> raw_score r' = raw_score r
                    \<and> credit_score r' = credit_score r)))
       \<and> (40 \<le> work_experiences ci \<longrightarrow>
            c_norm (comp_experience r) = Fin 1 \<and> c_points (comp_experience r) = Fin 60
          \<and> (work_experiences ci < e' \<longrightarrow>
               (if e' < float_overflow_bound
                then \<exists>r'. compute_scores (ci\<lparr>work_experiences := e'\<rparr>) = Inr r'
                    \<and> c_norm (comp_experience r') = c_norm (comp_experience r)
                    \<and> c_points (comp_experience r') = c_points (comp_experience r)
                    \<and> raw_score r' = raw_score r
                    \<and> credit_score r' = credit_score r
                else compute_scores (ci\<lparr>work_experiences := e'\<rparr>) = Inl OverflowError)))"
proof -
  have b: "\<bar>work_experiences ci\<bar> < float_overflow_bound" and r: "r = spec_result ci"
    using assms by (rule compute_scores_Inr)+
  have asset: "c_norm (comp_asset r) = Fin 1 \<and> c_points (comp_asset r) = Fin 150
          \<and> (pf_lt (total_asset_value ci) a' \<longrightarrow>
               (\<exists>r'. compute_scores (ci\<lparr>total_asset_value := a'\<rparr>) = Inr r'
                    \<and> c_norm (comp_asset r') = c_norm (comp_asset r)
                    \<and> c_points (comp_asset r') = c_points (comp_asset r)
                    \<and> raw_score r' = raw_score r
                    \<and> credit_score r' = credit_score r))"
    if cap: "pf_lt ASSET_CAP (total_asset_value ci) \<or> total_asset_value ci = ASSET_CAP"
  proof -
    have n: "spec_norm (total_asset_value ci) 10000000000 = 1"
      using cap spec_norm_saturated[of 10000000000 "total_asset_value ci"]
      by (simp add: ASSET_CAP_def)
    have here: "c_norm (comp_asset r) = Fin 1" "c_points (comp_asset r) = Fin 150"
      by (simp_all add: r spec_result_asset n round_half_even_whole)
    have "\<exists>r'. compute_scores (ci\<lparr>total_asset_value := a'\<rparr>) = Inr r'
             \<and> c_norm (comp_asset r') = c_norm (comp_asset r)
             \<and> c_points (comp_asset r') = c_points (comp_asset r)
             \<and> raw_score r' = raw_score r
                    \<and> credit_score r' = credit_score r"
      if lt: "pf_lt (total_asset_value ci) a'"
    proof -
      let ?ci = "ci\<lparr>total_asset_value := a'\<rparr>"
      have n': "spec_norm a' 10000000000 = 1"
        using spec_norm_above[OF _ n lt] by simp
      have "compute_scores ?ci = Inr (spec_result ?ci)"
        using b by (simp add: compute_scores_returns)
      moreover have "c_norm (comp_asset (spec_result ?ci)) = c_norm (comp_asset r)"
        "c_points (comp_asset (spec_result ?ci)) = c_points (comp_asset r)"
        by (simp_all add: r spec_result_asset n n')
      moreover have "raw_score (spec_result ?ci) = raw_score r"
        by (simp add: r spec_result_raw spec_raw_score_def n n')
      moreover have "credit_score (spec_result ?ci) = credit_score r"
        by (simp add: r spec_result_score spec_raw_score_def n n')
      ultimately show ?thesis by blast
    qed
    with here show ?thesis by blast
  qed
  have salary: "c_norm (comp_salary r) = Fin 1 \<and> c_points (comp_salary r) = Fin 90
          \<and> (pf_lt (monthly_salary ci) s' \<longrightarrow>
               (\<exists>r'. compute_scores (ci\<lparr>monthly_salary := s'\<rparr>) = Inr r'
                    \<and> c_norm (comp_salary r') = c_norm (comp_salary r)
                    \<and> c_points (comp_salary r') = c_points (comp_salary r)
                    \<and> raw_score r' = raw_score r
                    \<and> credit_score r' = credit_score r))"
    if cap: "pf_lt SALARY_CAP (monthly_salary ci) \<or> monthly_salary ci = SALARY_CAP"
  proof -
    have n: "spec_norm (monthly_salary ci) 200000000 = 1"
      using cap spec_norm_saturated[of 200000000 "monthly_salary ci"]
      by (simp add: SALARY_CAP_def)
    have here: "c_norm (comp_salary r) = Fin 1" "c_points (comp_salary r) = Fin 90"
      by (simp_all add: r spec_result_salary n round_half_even_whole)
    have "\<exists>r'. compute_scores (ci\<lparr>monthly_salary := s'\<rparr>) = Inr r'
             \<and> c_norm (comp_salary r') = c_norm (comp_salary r)
             \<and> c_points (comp_salary r') = c_points (comp_salary r)
             \<and> raw_score r' = raw_score r
                    \<and> credit_score r' = credit_score r"
      if lt: "pf_lt (monthly_salary ci) s'"
    proof -
      let ?ci = "ci\<lparr>monthly_salary := s'\<rparr>"
      have n': "spec_norm s' 200000000 = 1"
        using spec_norm_above[OF _ n lt] by simp
      have "compute_scores ?ci = Inr (spec_result ?ci)"
        using b by (simp add: compute_scores_returns)
      moreover have "c_norm (comp_salary (spec_result ?ci)) = c_norm (comp_salary r)"
        "c_points (comp_salary (spec_result ?ci)) = c_points (comp_salary r)"
        by (simp_all add: r spec_result_salary n n')
      moreover have "raw_score (spec_result ?ci) = raw_score r"
        by (simp add: r spec_result_raw spec_raw_score_def n n')
      moreover have "credit_score (spec_result ?ci) = credit_score r"
        by (simp add: r spec_result_score spec_raw_score_def n n')
      ultimately show ?thesis by blast
    qed
    with here show ?thesis by blast
  qed
  have exper: "c_norm (comp_experience r) = Fin 1 \<and> c_points (comp_experience r) = Fin 60
          \<and> (work_experiences ci < e' \<longrightarrow>
               (if e' < float_overflow_bound
                then \<exists>r'. compute_scores (ci\<lparr>work_experiences := e'\<rparr>) = Inr r'
                    \<and> c_norm (comp_experience r') = c_norm (comp_experience r)
                    \<and> c_points (comp_experience r') = c_points (comp_experience r)
                    \<and> raw_score r' = raw_score r
                    \<and> credit_score r' = credit_score r
                else compute_scores (ci\<lparr>work_experiences := e'\<rparr>) = Inl OverflowError))"
    if cap: "40 \<le> work_experiences ci"
  proof -
    have n: "spec_norm (Fin (of_int (work_experiences ci))) 40 = 1"
      using cap by (simp add: spec_norm_def)
    have here: "c_norm (comp_experience r) = Fin 1" "c_points (comp_experience r) = Fin 60"
      by (simp_all add: r spec_result_experience n round_half_even_whole)
    have fits: "\<exists>r'. compute_scores (ci\<lparr>work_experiences := e'\<rparr>) = Inr r'
             \<and> c_norm (comp_experience r') = c_norm (comp_experience r)
             \<and> c_points (comp_experience r') = c_points (comp_experience r)
             \<and> raw_score r' = raw_score r
                    \<and> credit_score r' = credit_score r"
      if lt: "work_experiences ci < e'" and f: "e' < float_overflow_bound"
    proof -
      let ?ci = "ci\<lparr>work_experiences := e'\<rparr>"
      have n': "spec_norm (Fin (of_int e')) 40 = 1"
        using cap lt by (simp add: spec_norm_def)
      have "\<bar>work_experiences ?ci\<bar> < float_overflow_bound"
        using cap lt f by simp
      then have "compute_scores ?ci = Inr (spec_result ?ci)"
        by (rule compute_scores_returns)
      moreover have "c_norm (comp_experience (spec_result ?ci)) = c_norm (comp_experience r)"
        "c_points (comp_experience (spec_result ?ci)) = c_points (comp_experience r)"
        by (simp_all add: r spec_result_experience n n')
      moreover have "raw_score (spec_result ?ci) = raw_score r"
        by (simp add: r spec_result_raw spec_raw_score_def n n')
      moreover have "credit_score (spec_result ?ci) = credit_score r"
        by (simp add: r spec_result_score spec_raw_score_def n n')
      ultimately show ?thesis by blast
    qed
    have over: "compute_scores (ci\<lparr>work_experiences := e'\<rparr>) = Inl OverflowError"
      if "work_experiences ci < e'" "\<not> e' < float_overflow_bound"
      using that cap by (simp add: compute_scores_Inl)
    from here fits over show ?thesis by simp
  qed
  from asset salary exper show ?thesis by blast
qed

theorem saturation_witness:
  "\<exists>r. compute_scores \<lparr>total_asset_value = Fin 10000000000, monthly_salary = Fin 200000000,
                         work_experiences = 40, age = 30\<rparr> = Inr r
     \<and> raw_score r = Fin 800 \<and> credit_score r = 800
     \<and> c_norm (comp_asset r) = Fin 1 \<and> c_points (comp_asset r) = Fin 150
     \<and> c_norm (comp_salary r) = Fin 1 \<and> c_points (comp_salary r) = Fin 90
     \<and> c_norm (comp_experience r) = Fin 1 \<and> c_points (comp_experience r) = Fin 60
     \<and> (\<exists>r'. compute_scores \<lparr>total_asset_value = PInf, monthly_salary = Fin 200000000,
                         work_experiences = 40, age = 30\<rparr> = Inr r'
            \<and> c_norm (comp_asset r') = Fin 1 \<and> c_points (comp_asset r') = Fin 150
            \<and> raw_score r' = Fin 800 \<and> credit_score r' = 800)
     \<and> (\<exists>r'. compute_scores \<lparr>total_asset_value = Fin 10000000000, monthly_salary = Fin 900000000,
                         work_experiences = 40, age = 30\<rparr> = Inr r'
            \<and> c_norm (comp_salary r') = Fin 1 \<and> c_points (comp_salary r') = Fin 90
            \<and> raw_score r' = Fin 800 \<and> credit_score r' = 800)
     \<and> (\<exists>r'. compute_scores \<lparr>total_asset_value = Fin 10000000000, monthly_salary = Fin 200000000,
                         work_experiences = 55, age = 30\<rparr> = Inr r'
            \<and> c_norm (comp_experience r') = Fin 1 \<and> c_points (comp_experience r') = Fin 60
            \<and> raw_score r' = Fin 800 \<and> credit_score r' = 800)
     \<and> compute_scores \<lparr>total_asset_value = Fin 10000000000, monthly_salary = Fin 200000000,
                         work_experiences = 10 ^ 400, age = 30\<rparr> = Inl OverflowError"
proof -
  let ?ci = "\<lparr>total_asset_value = Fin 10000000000, monthly_salary = Fin 200000000,
              work_experiences = 40, age = 30\<rparr>"
  have "\<exists>r. compute_scores ?ci = Inr r \<and> raw_score r = Fin 800 \<and> credit_score r = 800"
    by (simp add: eval_defs)
  then obtain r where r: "compute_scores ?ci = Inr r" "raw_score r = Fin 800"
      "credit_score r = 800"
    by blast
  have small: "(55 :: int) < float_overflow_bound"
    and large: "\<not> (10 ^ 400 :: int) < float_overflow_bound"
    by (simp_all add: float_overflow_bound_def)
  from saturation[OF r(1), of PInf "Fin 900000000" 55]
    saturation[OF r(1), of PInf "Fin 900000000" "10 ^ 400"]
    r small large
  show ?thesis by (simp add: ASSET_CAP_def SALARY_CAP_def)
qed

subsection \<open>C7: rounding is for display only\<close>

text \<open>
  C7. Whatever the float operations are, the engine's outcome is the outcome of the
  engine run without any \<^verbatim>\<open>round(x, n)\<close>, with the \<^verbatim>\<open>norm\<close> and \<^verbatim>\<open>points\<close> fields
  of the three breakdown components rounded to 6 and to 2 digits afterwards: the
  rounding reaches these six fields and nothing else. In the run without rounding the
  \<^verbatim>\<open>points\<close> of a component is the factor score \<^verbatim>\<open>norm * (BONUS_POOL * weight)\<close>,
  \<^verbatim>\<open>raw_score\<close> is the base plus the three factor scores, and \<^verbatim>\<open>credit_score\<close> is the
  rounded clamp of \<^verbatim>\<open>raw_score\<close>; so both scores are computed from the unrounded
  ratios and factor scores. The witness is a record on which every operation is exact
  in binary64 too: the ratio 0.5000000596046448 enters the scores and is shown as 0.5.
\<close>

theorem display_rounding_only:
  "compute_scores_on ops ci =
     map_sum id (round_breakdown ops) (compute_scores_on (without_rounding ops) ci)
   \<and> (\<forall>u. compute_scores_on (without_rounding ops) ci = Inr u \<longrightarrow>
         c_points (comp_asset u) =
           f_mul ops (c_norm (comp_asset u)) (f_mul ops BONUS_POOL (WEIGHTS Asset))
       \<and> c_points (comp_salary u) =
           f_mul ops (c_norm (comp_salary u)) (f_mul ops BONUS_POOL (WEIGHTS Salary))
       \<and> c_points (comp_experience u) =
           f_mul ops (c_norm (comp_experience u)) (f_mul ops BONUS_POOL (WEIGHTS Experience))
       \<and> raw_score u =
           f_add ops (f_add ops (f_add ops BASE_SCORE (c_points (comp_asset u)))
                        (c_points (comp_salary u)))
             (c_points (comp_experience u))
       \<and> py_round (py_max BASE_SCORE (py_min (raw_score u) (f_add ops BASE_SCORE BONUS_POOL)))
           = Inr (credit_score u))"
  by (auto simp: compute_scores_on_def without_rounding_def round_breakdown_def
      round_component_def Let_def split: sum.splits prod.splits)

theorem display_rounding_only_witness:
  "\<exists>u. compute_scores_on (without_rounding exact_ops)
          \<lparr>total_asset_value = Fin (5000000000 + 9765625 / 16384), monthly_salary = Fin 0,
           work_experiences = 0, age = 30\<rparr> = Inr u
     \<and> c_norm (comp_asset u) = Fin (1 / 2 + 1 / 16777216)
     \<and> c_points (comp_asset u) = Fin (75 + 75 / 8388608)
     \<and> raw_score u = Fin (575 + 75 / 8388608)
     \<and> credit_score u = 575
     \<and> compute_scores
          \<lparr>total_asset_value = Fin (5000000000 + 9765625 / 16384), monthly_salary = Fin 0,
           work_experiences = 0, age = 30\<rparr> = Inr (round_breakdown exact_ops u)
     \<and> c_norm (comp_asset (round_breakdown exact_ops u)) = Fin (1 / 2)
     \<and> c_points (comp_asset (round_breakdown exact_ops u)) = Fin 75
     \<and> raw_score (round_breakdown exact_ops u) = Fin (575 + 75 / 8388608)
     \<and> credit_score (round_breakdown exact_ops u) = 575"
proof -
  let ?ci = "\<lparr>total_asset_value = Fin (5000000000 + 9765625 / 16384), monthly_salary = Fin 0,
              work_experiences = 0, age = 30\<rparr>"
  have "\<exists>u. compute_scores_on (without_rounding exact_ops) ?ci = Inr u
     \<and> c_norm (comp_asset u) = Fin (1 / 2 + 1 / 16777216)
     \<and> c_points (comp_asset u) = Fin (75 + 75 / 8388608)
     \<and> raw_score u = Fin (575 + 75 / 8388608)
     \<and> credit_score u = 575"
    unfolding compute_scores_on_def without_rounding_def exact_ops_def float_ops.simps
    by (simp add: eval_defs)
  then obtain u where u: "compute_scores_on (without_rounding exact_ops) ?ci = Inr u"
    "c_norm (comp_asset u) = Fin (1 / 2 + 1 / 16777216)"
    "c_points (comp_asset u) = Fin (75 + 75 / 8388608)"
    "raw_score u = Fin (575 + 75 / 8388608)" "credit_score u = 575"
    by blast
  have "compute_scores ?ci = Inr (round_breakdown exact_ops u)"
    using display_rounding_only[of exact_ops ?ci] u(1)
    by (simp add: compute_scores_on_exact)
  moreover have "c_norm (comp_asset (round_breakdown exact_ops u)) = Fin (1 / 2)"
    "c_points (comp_asset (round_breakdown exact_ops u)) = Fin 75"
    by (simp_all add: round_breakdown_def round_component_def exact_ops_def u
        round_half_even_def)
  moreover have "raw_score (round_breakdown exact_ops u) = Fin (575 + 75 / 8388608)"
    "credit_score (round_breakdown exact_ops u) = 575"
    by (simp_all add: round_breakdown_def u)
  ultimately show ?thesis
    using u by blast
qed

subsection \<open>C8: the empty request and the all-zero request\<close>

text \<open>
  C8. On the empty request every field reads as zero, the score is the base score 500
  and the label is \<^verbatim>\<open>risk\<close>; the request with all three factors zero and age 30 gives
  the same score and label.
\<close>

theorem empty_and_zero_request:
  "sanitize_and_cast Map.empty =
     Inr \<lparr>total_asset_value = Fin 0, monthly_salary = Fin 0, work_experiences = 0, age = 0\<rparr>
   \<and> (\<exists>r. classify_customer Map.empty = Inr (Success r)
          \<and> cc_credit_score r = 500 \<and> cc_classification r = ''risk'')
   \<and> (\<exists>r. score_breakdown Map.empty = Inr (Success r) \<and> sb_credit_score r = 500)
   \<and> (\<exists>r. classify_customer
              [''total_asset_value'' \<mapsto> PInt 0, ''monthly_salary'' \<mapsto> PInt 0,
               ''work_experiences'' \<mapsto> PInt 0, ''age'' \<mapsto> PInt 30] = Inr (Success r)
          \<and> cc_credit_score r = 500 \<and> cc_classification r = ''risk'')
   \<and> (\<exists>r. score_breakdown
              [''total_asset_value'' \<mapsto> PInt 0, ''monthly_salary'' \<mapsto> PInt 0,
               ''work_experiences'' \<mapsto> PInt 0, ''age'' \<mapsto> PInt 30] = Inr (Success r)
          \<and> sb_credit_score r = 500)"
  by (simp add: eval_defs)

subsection \<open>C9: every factor at its cap\<close>

text \<open>
  C9. The request with asset 1e10, salary 2e8, 40 years of experience and age 30 gets
  the score 800 and the label \<^verbatim>\<open>high-value\<close>.
\<close>

theorem all_caps_request:
  "(\<exists>r. classify_customer
            [''total_asset_value'' \<mapsto> PFloat (Fin 10000000000),
             ''monthly_salary'' \<mapsto> PFloat (Fin 200000000),
             ''work_experiences'' \<mapsto> PInt 40, ''age'' \<mapsto> PInt 30] = Inr (Success r)
        \<and> cc_credit_score r = 800 \<and> cc_classification r = ''high-value'')
   \<and> (\<exists>r. score_breakdown
            [''total_asset_value'' \<mapsto> PFloat (Fin 10000000000),
             ''monthly_salary'' \<mapsto> PFloat (Fin 200000000),
             ''work_experiences'' \<mapsto> PInt 40, ''age'' \<mapsto> PInt 30] = Inr (Success r)
        \<and> sb_credit_score r = 800)"
  by (simp add: eval_defs)

subsection \<open>C10: a fractional number and the same number as text\<close>

text \<open>
  C10. Let a request be accepted, and let \<open>x\<close> be a finite number with a fractional
  part, greater than -1. Sent as a number in \<^verbatim>\<open>work_experiences\<close> or \<^verbatim>\<open>age\<close>, \<open>x\<close>
  is accepted and the field becomes \<open>x\<close> truncated toward zero. Sent as a string
  that \<^verbatim>\<open>float\<close> would read as \<open>x\<close>, it makes \<^verbatim>\<open>int\<close> raise \<^verbatim>\<open>ValueError\<close>, and
  both tools return the error object.
\<close>

theorem conversion_asymmetry:
  assumes ok: "sanitize_and_cast inp = Inr ci"
    and frac: "real_of_int \<lfloor>x\<rfloor> \<noteq> x" and nonneg: "- 1 < x"
    and str: "parse_float s = Some (Fin x)"
  shows "sanitize_and_cast (inp(''work_experiences'' \<mapsto> PFloat (Fin x))) =
           Inr (ci\<lparr>work_experiences := (if 0 \<le> x then \<lfloor>x\<rfloor> else \<lceil>x\<rceil>)\<rparr>)
       \<and> sanitize_and_cast (inp(''age'' \<mapsto> PFloat (Fin x))) =
           Inr (ci\<lparr>age := (if 0 \<le> x then \<lfloor>x\<rfloor> else \<lceil>x\<rceil>)\<rparr>)
       \<and> classify_customer (inp(''work_experiences'' \<mapsto> PStr s)) =
           Inr (Failure \<lparr>error = ''invalid_input'', details = Invalid_input_types ValueError\<rparr>)
       \<and> score_breakdown (inp(''work_experiences'' \<mapsto> PStr s)) =
           Inr (Failure \<lparr>error = ''invalid_input'', details = Invalid_input_types ValueError\<rparr>)
       \<and> classify_customer (inp(''age'' \<mapsto> PStr s)) =
           Inr (Failure \<lparr>error = ''invalid_input'', details = Invalid_input_types ValueError\<rparr>)
       \<and> score_breakdown (inp(''age'' \<mapsto> PStr s)) =
           Inr (Failure \<lparr>error = ''invalid_input'', details = Invalid_input_types ValueError\<rparr>)"
proof -
  let ?n = "if 0 \<le> x then \<lfloor>x\<rfloor> else \<lceil>x\<rceil>"
  have num: "py_int (PFloat (Fin x)) = Inr ?n"
    by simp
  have "0 \<le> ?n"
    using nonneg by (simp add: le_ceiling_iff)
  note number = sanitize_update_exp[OF ok num this] sanitize_update_age[OF ok num this]
  have "parse_int s = None"
    using str frac by (rule fractional_string_not_int)
  then have "py_int (PStr s) = Inl ValueError"
    by simp
  note bad = sanitize_bad_exp[OF ok this]
  show ?thesis
    using number sanitizer_failure_returned[OF bad(1)] sanitizer_failure_returned[OF bad(2)]
    by simp
qed

theorem conversion_asymmetry_witness:
  "sanitize_and_cast Map.empty =
     Inr \<lparr>total_asset_value = Fin 0, monthly_salary = Fin 0, work_experiences = 0, age = 0\<rparr>
   \<and> real_of_int \<lfloor>29 / 10 :: real\<rfloor> \<noteq> 29 / 10
   \<and> parse_float ''2.9'' = Some (Fin (29 / 10))
   \<and> sanitize_and_cast [''work_experiences'' \<mapsto> PFloat (Fin (29 / 10))] =
       Inr \<lparr>total_asset_value = Fin 0, monthly_salary = Fin 0, work_experiences = 2, age = 0\<rparr>
   \<and> classify_customer [''work_experiences'' \<mapsto> PStr ''2.9''] =
       Inr (Failure \<lparr>error = ''invalid_input'', details = Invalid_input_types ValueError\<rparr>)
   \<and> sanitize_and_cast [''age'' \<mapsto> PFloat (Fin (29 / 10))] =
       Inr \<lparr>total_asset_value = Fin 0, monthly_salary = Fin 0, work_experiences = 0, age = 2\<rparr>
   \<and> score_breakdown [''age'' \<mapsto> PStr ''2.9''] =
       Inr (Failure \<lparr>error = ''invalid_input'', details = Invalid_input_types ValueError\<rparr>)"
proof -
  have ok: "sanitize_and_cast Map.empty =
     Inr \<lparr>total_asset_value = Fin 0, monthly_salary = Fin 0, work_experiences = 0, age = 0\<rparr>"
    by (simp add: eval_defs)
  have frac: "real_of_int \<lfloor>29 / 10 :: real\<rfloor> \<noteq> 29 / 10"
    by simp
  have nonneg: "- 1 < (29 / 10 :: real)"
    by simp
  have str: "parse_float ''2.9'' = Some (Fin (29 / 10))"
    by (simp add: parse_float_def parse_unsigned_float_def strip_def is_space_def
        parse_signed_digits_def digit_of_def to_lower_def split_at_def parse_mantissa_def
        digits_value_def pow10_def float_overflow_bound_def)
  from conversion_asymmetry[OF ok frac nonneg str] ok frac str show ?thesis
    by simp
qed

end
